theory Spec2Isabelle
  imports Main
begin

section \<open>Python strings and errors\<close>

text \<open>
  Python \<^verbatim>\<open>str\<close> values are modelled as \<^typ>\<open>string\<close> (ASCII text). The exceptions
  that the modelled functions can raise are values of one datatype; a function that can
  raise returns \<open>error + 'a\<close>, with \<open>Inl\<close> for the raised exception.
\<close>

definition newline :: char where
  "newline = CHR 0x0A"

datatype error =
    IQSharpError (iqsharp_errors: "string list") (message: string)
  | AssertionError
  | NameError string
  | JSONDecodeError
  | KeyError string

section \<open>The IQ\# client (qsharp/clients/iqsharp.py)\<close>

subsection \<open>The exception IQSharpError\<close>

text \<open>
  \<^verbatim>\<open>IQSharpError.__init__\<close> keeps the list of error texts and builds the message in a
  \<^verbatim>\<open>StringIO\<close>: one \<^verbatim>\<open>write\<close> of the banner, then \<^verbatim>\<open>writelines\<close> of the
  texts, each prefixed by four spaces. \<^verbatim>\<open>writelines\<close> writes the strings one after the
  other and adds no line separator.
\<close>

definition banner :: string where
  "banner = ''The Q# kernel raised the following errors:''"

definition indent :: string where
  "indent = ''    ''"

definition StringIO_writelines :: "string \<Rightarrow> string list \<Rightarrow> string" where
  "StringIO_writelines buf ls = buf @ concat ls"

definition IQSharpError_init :: "string list \<Rightarrow> error" where
  "IQSharpError_init errs =
     IQSharpError errs
       (StringIO_writelines (banner @ [newline]) (map (\<lambda>msg. indent @ msg) errs))"

subsection \<open>Messages of the kernel\<close>

text \<open>
  A message of the kernel is a dictionary with a \<^verbatim>\<open>msg_type\<close> and a \<^verbatim>\<open>content\<close>.
  The content of a \<^verbatim>\<open>stream\<close> message has a \<^verbatim>\<open>name\<close> and a \<^verbatim>\<open>text\<close>; the content
  of an \<^verbatim>\<open>execute_result\<close> message has \<^verbatim>\<open>data\<close>, a dictionary from MIME types to
  payloads. Messages are taken to be well formed for the Jupyter messaging protocol, so
  every field that \<^verbatim>\<open>execute\<close> reads is present.
\<close>

record content =
  stream_name :: string
  stream_text :: string
  data :: "string \<rightharpoonup> string"

record message =
  msg_type :: string
  content :: content

text \<open>
  What \<^verbatim>\<open>execute\<close> returns: \<^verbatim>\<open>obj\<close>, which is \<^verbatim>\<open>None\<close> or a decoded value, or the
  pair \<^verbatim>\<open>(obj, content)\<close> when \<^verbatim>\<open>return_full_result\<close> is set.
\<close>

datatype 'v returned =
    Obj "'v option"
  | Full "'v option" content

text \<open>
  The collaborators outside this file: \<^verbatim>\<open>json.loads\<close> (\<open>None\<close> when it raises),
  \<^verbatim>\<open>unmap_tuples\<close> of \<^verbatim>\<open>qsharp.serialization\<close>, and the kernel behind
  \<^verbatim>\<open>kernel_client.execute_interactive\<close>, which answers a command with the sequence of
  messages it hands to the output hook before the command completes.
\<close>

record ('j, 'v) collaborators =
  json_loads :: "string \<Rightarrow> 'j option"
  unmap_tuples :: "'j \<Rightarrow> 'v"
  kernel :: "string \<Rightarrow> message list"

text \<open>
  The observable state of a client: the commands sent to the kernel so far and the
  messages passed on to \<^verbatim>\<open>_output_hook_default\<close>.
\<close>

record client =
  sent :: "string list"
  passed_on :: "message list"

subsection \<open>execute\<close>

text \<open>The local lists of \<^verbatim>\<open>execute\<close> that the closure \<^verbatim>\<open>output_hook\<close> appends to.\<close>

record hook_state =
  results :: "message list"
  errors :: "string list"
  forwarded :: "message list"

definition output_hook :: "bool \<Rightarrow> message \<Rightarrow> hook_state \<Rightarrow> hook_state" where
  "output_hook raise_on_stderr msg st =
     (if msg_type msg = ''execute_result'' then st\<lparr>results := results st @ [msg]\<rparr>
      else if raise_on_stderr \<and> msg_type msg = ''stream''
                \<and> stream_name (content msg) = ''stderr''
           then st\<lparr>errors := errors st @ [stream_text (content msg)]\<rparr>
           else st\<lparr>forwarded := forwarded st @ [msg]\<rparr>)"

definition execute_interactive ::
  "('j, 'v) collaborators \<Rightarrow> string \<Rightarrow> (message \<Rightarrow> hook_state \<Rightarrow> hook_state)
     \<Rightarrow> hook_state \<Rightarrow> hook_state" where
  "execute_interactive env input hook st = fold hook (kernel env input) st"

definition full_or_obj :: "bool \<Rightarrow> 'v option \<Rightarrow> content \<Rightarrow> 'v returned" where
  "full_or_obj return_full_result obj c = (if return_full_result then Full obj c else Obj obj)"

definition execute ::
  "('j, 'v) collaborators \<Rightarrow> string \<Rightarrow> bool \<Rightarrow> bool \<Rightarrow> client
     \<Rightarrow> (error + 'v returned) \<times> client" where
  "execute env input return_full_result raise_on_stderr cl =
     (let st = execute_interactive env input (output_hook raise_on_stderr)
                 \<lparr>results = [], errors = [], forwarded = []\<rparr>;
          cl' = cl\<lparr>sent := sent cl @ [input], passed_on := passed_on cl @ forwarded st\<rparr>
      in if errors st \<noteq> [] then (Inl (IQSharpError_init (errors st)), cl')
         else if results st \<noteq> [] then
           (if length (results st) \<noteq> 1 then (Inl AssertionError, cl')
            else let c = content (hd (results st)) in
              (case data c ''application/json'' of
                 Some payload \<Rightarrow>
                   (case json_loads env payload of
                      None \<Rightarrow> (Inl JSONDecodeError, cl')
                    | Some j \<Rightarrow>
                        (Inr (full_or_obj return_full_result (Some (unmap_tuples env j)) c), cl'))
               | None \<Rightarrow> (Inr (full_or_obj return_full_result None c), cl')))
         else (Inr (Obj None), cl'))"

subsection \<open>The commands built on execute\<close>

text \<open>
  A name that is not local is looked up in the module's globals and then in the builtins.
  The module binds neither \<^verbatim>\<open>True\<close> nor \<^verbatim>\<open>False\<close> nor \<^verbatim>\<open>False1\<close>; the builtins have
  the first two. Looking up any other name of this kind raises \<^verbatim>\<open>NameError\<close>.
\<close>

definition load_name :: "string \<Rightarrow> error + bool" where
  "load_name n =
     (if n = ''True'' then Inr True
      else if n = ''False'' then Inr False
      else Inl (NameError n))"

definition get_available_operations ::
  "('j, 'v) collaborators \<Rightarrow> client \<Rightarrow> (error + 'v returned) \<times> client" where
  "get_available_operations env cl =
     (case load_name ''False'' of
        Inl e \<Rightarrow> (Inl e, cl)
      | Inr b \<Rightarrow> execute env ''%who'' False b cl)"

definition get_packages ::
  "('j, 'v) collaborators \<Rightarrow> client \<Rightarrow> (error + 'v returned) \<times> client" where
  "get_packages env cl =
     (case load_name ''False1'' of
        Inl e \<Rightarrow> (Inl e, cl)
      | Inr b \<Rightarrow> execute env ''%package'' False b cl)"

text \<open>Which messages are result events and which are error-stream events.\<close>

definition is_result :: "message \<Rightarrow> bool" where
  "is_result msg \<longleftrightarrow> msg_type msg = ''execute_result''"

definition is_stderr :: "message \<Rightarrow> bool" where
  "is_stderr msg \<longleftrightarrow> msg_type msg = ''stream'' \<and> stream_name (content msg) = ''stderr''"


section \<open>Regular expressions of the geometry module\<close>

text \<open>
  The character classes of Python's \<^verbatim>\<open>re\<close> on ASCII text: \<^verbatim>\<open>[0-9]\<close> and \<^verbatim>\<open>\d\<close>,
  \<^verbatim>\<open>\w\<close>, and \<^verbatim>\<open>\s\<close> (which, for \<^verbatim>\<open>str\<close> patterns, also has the four separator
  characters 0x1C to 0x1F).
\<close>

definition is_digit :: "char \<Rightarrow> bool" where
  "is_digit c \<longleftrightarrow> c \<in> set ''0123456789''"

definition is_word :: "char \<Rightarrow> bool" where
  "is_word c \<longleftrightarrow>
     c \<in> set ''abcdefghijklmnopqrstuvwxyzABCDEFGHIJKLMNOPQRSTUVWXYZ0123456789_''"

definition is_space :: "char \<Rightarrow> bool" where
  "is_space c \<longleftrightarrow>
     c \<in> set [CHR 0x09, CHR 0x0A, CHR 0x0B, CHR 0x0C, CHR 0x0D,
                CHR 0x1C, CHR 0x1D, CHR 0x1E, CHR 0x1F, CHR 0x20]"

text \<open>
  A pattern is tried at the head of a text and gives what it matched and the rest of the
  text. The pieces the two patterns are made of: one character of a class, an optional
  character \<^verbatim>\<open>[..]?\<close>, and the greedy repetitions \<^verbatim>\<open>[..]*\<close> and \<^verbatim>\<open>[..]+\<close>. A greedy
  repetition takes the longest run first and would give characters back only if the rest
  of the pattern failed. In \<^verbatim>\<open>XYZ_PATTERN\<close> what follows a repetition of digits is a
  point, a blank or the end of the pattern, and what follows the optional sign is a digit
  or a point: a shorter run leaves a digit (or the sign) where the pattern wants another
  character, so giving back never helps and the longest run is the only candidate.
\<close>

type_synonym 'a matcher = "string \<Rightarrow> ('a \<times> string) option"

definition one_of :: "(char \<Rightarrow> bool) \<Rightarrow> string matcher" where
  "one_of P s = (case s of [] \<Rightarrow> None | c # r \<Rightarrow> if P c then Some ([c], r) else None)"

definition optional :: "(char \<Rightarrow> bool) \<Rightarrow> string matcher" where
  "optional P s =
     (case s of [] \<Rightarrow> Some ([], []) | c # r \<Rightarrow> if P c then Some ([c], r) else Some ([], s))"

definition star :: "(char \<Rightarrow> bool) \<Rightarrow> string matcher" where
  "star P s = Some (takeWhile P s, dropWhile P s)"

definition plus :: "(char \<Rightarrow> bool) \<Rightarrow> string matcher" where
  "plus P s = (if takeWhile P s = [] then None else Some (takeWhile P s, dropWhile P s))"

text \<open>\<^verbatim>\<open>FLOAT_PATTERN = "([+-]?[0-9]*[.][0-9]+)"\<close>\<close>

definition FLOAT_PATTERN :: "string matcher" where
  "FLOAT_PATTERN s =
     (case optional (\<lambda>c. c = CHR ''+'' \<or> c = CHR ''-'') s of None \<Rightarrow> None | Some (sign, s1) \<Rightarrow>
      case star is_digit s1 of None \<Rightarrow> None | Some (whole, s2) \<Rightarrow>
      case one_of (\<lambda>c. c = CHR ''.'') s2 of None \<Rightarrow> None | Some (point, s3) \<Rightarrow>
      case plus is_digit s3 of None \<Rightarrow> None | Some (frac, s4) \<Rightarrow>
        Some (sign @ whole @ point @ frac, s4))"

definition blank :: "string matcher" where
  "blank = one_of (\<lambda>c. c = CHR '' '')"

text \<open>
  \<^verbatim>\<open>XYZ_PATTERN = f"(\w) {FLOAT_PATTERN} {FLOAT_PATTERN} {FLOAT_PATTERN}"\<close>, with its four
  groups: one word character and three floats.
\<close>

definition XYZ_PATTERN :: "(string \<times> string \<times> string \<times> string) matcher" where
  "XYZ_PATTERN s =
     (case one_of is_word s of None \<Rightarrow> None | Some (w, s1) \<Rightarrow>
      case blank s1 of None \<Rightarrow> None | Some (b1, s2) \<Rightarrow>
      case FLOAT_PATTERN s2 of None \<Rightarrow> None | Some (f1, s3) \<Rightarrow>
      case blank s3 of None \<Rightarrow> None | Some (b2, s4) \<Rightarrow>
      case FLOAT_PATTERN s4 of None \<Rightarrow> None | Some (f2, s5) \<Rightarrow>
      case blank s5 of None \<Rightarrow> None | Some (b3, s6) \<Rightarrow>
      case FLOAT_PATTERN s6 of None \<Rightarrow> None | Some (f3, s7) \<Rightarrow>
        Some ((w, f1, f2, f3), s7))"

lemma one_of_shorter: "one_of P s = Some (m, r) \<Longrightarrow> length r < length s"
  by (auto simp: one_of_def split: list.splits if_splits)

lemma FLOAT_PATTERN_shorter: "FLOAT_PATTERN s = Some (m, r) \<Longrightarrow> length r < length s"
proof -
  assume a: "FLOAT_PATTERN s = Some (m, r)"
  have d: "length (dropWhile P u) \<le> length u" for P and u :: string
    by (rule length_dropWhile_le)
  from a obtain sign s1 s3 where
    1: "optional (\<lambda>c. c = CHR ''+'' \<or> c = CHR ''-'') s = Some (sign, s1)"
    and 3: "one_of (\<lambda>c. c = CHR ''.'') (dropWhile is_digit s1) = Some (''.'', s3)"
    and 4: "r = dropWhile is_digit s3"
    by (auto simp: FLOAT_PATTERN_def star_def plus_def one_of_def
        split: option.splits prod.splits if_splits list.splits)
  from 1 have "length s1 \<le> length s"
    by (auto simp: optional_def split: list.splits if_splits)
  moreover from 3 have "length s3 < length (dropWhile is_digit s1)"
    by (rule one_of_shorter)
  ultimately show ?thesis
    using d[of is_digit s1] d[of is_digit s3] 4 by simp
qed

lemma XYZ_PATTERN_shorter: "XYZ_PATTERN s = Some (t, r) \<Longrightarrow> length r < length s"
proof -
  assume "XYZ_PATTERN s = Some (t, r)"
  then obtain w s1 b1 s2 f1 s3 b2 s4 f2 s5 b3 s6 f3 where
    "one_of is_word s = Some (w, s1)" "blank s1 = Some (b1, s2)"
    "FLOAT_PATTERN s2 = Some (f1, s3)" "blank s3 = Some (b2, s4)"
    "FLOAT_PATTERN s4 = Some (f2, s5)" "blank s5 = Some (b3, s6)"
    "FLOAT_PATTERN s6 = Some (f3, r)"
    by (auto simp: XYZ_PATTERN_def split: option.splits prod.splits)
  then show ?thesis
    by (auto simp: blank_def dest!: one_of_shorter FLOAT_PATTERN_shorter)
qed

text \<open>
  \<^verbatim>\<open>re.findall(XYZ_PATTERN, xyz)\<close> scans the text from left to right: where the pattern
  matches, the tuple of its groups is collected and the scan goes on after the match
  (which is never empty); where it does not, the scan moves one character on.
\<close>

function re_findall_XYZ_PATTERN :: "string \<Rightarrow> (string \<times> string \<times> string \<times> string) list" where
  "re_findall_XYZ_PATTERN [] = []"
| "re_findall_XYZ_PATTERN (c # cs) =
     (case XYZ_PATTERN (c # cs) of
        Some (t, r) \<Rightarrow> t # re_findall_XYZ_PATTERN r
      | None \<Rightarrow> re_findall_XYZ_PATTERN cs)"
  by pat_completeness auto
termination
  by (relation "measure length") (auto dest: XYZ_PATTERN_shorter)

text \<open>
  \<^verbatim>\<open>re.match("\s*(?P<num_atoms>\d+)\s*\n", xyz)\<close>, giving the group \<^verbatim>\<open>num_atoms\<close> of
  the match. The pattern is tried at the start of the text only. After the digits,
  \<^verbatim>\<open>\s*\<close> takes the whole run of white space and gives characters back until a newline
  follows: that succeeds exactly when the run has a newline in it.
\<close>

definition re_match_num_atoms :: "string \<Rightarrow> string option" where
  "re_match_num_atoms xyz =
     (case star is_space xyz of None \<Rightarrow> None | Some (lead, s1) \<Rightarrow>
      case plus is_digit s1 of None \<Rightarrow> None | Some (num_atoms, s2) \<Rightarrow>
      case star is_space s2 of None \<Rightarrow> None | Some (trail, s3) \<Rightarrow>
        if newline \<in> set trail then Some num_atoms else None)"

text \<open>\<^verbatim>\<open>int\<close> of a string of decimal digits.\<close>

definition digit_value :: "char \<Rightarrow> nat" where
  "digit_value c = of_char c - 48"

definition int_of_digits :: "string \<Rightarrow> nat" where
  "int_of_digits ds = foldl (\<lambda>n c. 10 * n + digit_value c) 0 ds"

section \<open>Geometry (qdk\_chemistry/geometry/geometry.py)\<close>

text \<open>
  The coordinates are Python floats; the type \<open>'f\<close> stands for them, and \<^verbatim>\<open>float\<close>, the
  conversion of a matched text to a float, is a parameter \<open>to_float\<close>.
\<close>

record 'f Element =
  name :: string
  x :: 'f
  y :: 'f
  z :: 'f

definition Element_from_tuple ::
  "(string \<Rightarrow> 'f) \<Rightarrow> string \<times> string \<times> string \<times> string \<Rightarrow> 'f Element" where
  "Element_from_tuple to_float v =
     (case v of (n, a, b, c) \<Rightarrow> \<lparr>name = n, x = to_float a, y = to_float b, z = to_float c\<rparr>)"

text \<open>A \<^verbatim>\<open>Geometry\<close> is a list of elements with an attribute \<^verbatim>\<open>charge\<close>.\<close>

record 'f Geometry =
  elements :: "'f Element list"
  charge :: "int option"

definition Geometry_init :: "'f Element list \<Rightarrow> int option \<Rightarrow> 'f Geometry" where
  "Geometry_init els ch = \<lparr>elements = els, charge = ch\<rparr>"

definition from_xyz :: "(string \<Rightarrow> 'f) \<Rightarrow> string \<Rightarrow> error + 'f Geometry" where
  "from_xyz to_float xyz =
     (if newline \<notin> set xyz then Inr (Geometry_init [] None)
      else
        let num_atoms = re_match_num_atoms xyz;
            match = re_findall_XYZ_PATTERN xyz
        in if num_atoms \<noteq> None \<and> length match = int_of_digits (the num_atoms)
           then Inr (Geometry_init (map (Element_from_tuple to_float) match) None)
           else Inl AssertionError)"

text \<open>
  The molecule is an RDKit object. What this code reads from it: its atoms (their atomic
  numbers), its formal charge, and the coordinates that \<^verbatim>\<open>_mol_to_coordinates\<close> computes
  for it.
\<close>

record 'f Mol =
  GetAtoms :: "nat list"
  GetFormalCharge :: int
  mol_to_coordinates :: "(string \<times> 'f \<times> 'f \<times> 'f) list"

definition from_mol :: "'f Mol \<Rightarrow> 'f Geometry" where
  "from_mol mol =
     Geometry_init
       (map (\<lambda>(n, a, b, c). \<lparr>name = n, x = a, y = b, z = c\<rparr>) (mol_to_coordinates mol))
       (Some (GetFormalCharge mol))"

text \<open>\<^verbatim>\<open>line_sep.join(...)\<close>\<close>

fun join :: "string \<Rightarrow> string list \<Rightarrow> string" where
  "join sep [] = []"
| "join sep [a] = a"
| "join sep (a # b # r) = a @ sep @ join sep (b # r)"

text \<open>
  \<^verbatim>\<open>element_coords_to_xyz\<close> of \<^verbatim>\<open>qdk_chemistry.geometry.xyz\<close>, which prints one element,
  is a parameter \<open>coords_to_xyz\<close>.
\<close>

definition Element_to_xyz :: "(string \<Rightarrow> 'f \<Rightarrow> 'f \<Rightarrow> 'f \<Rightarrow> string) \<Rightarrow> 'f Element \<Rightarrow> string" where
  "Element_to_xyz coords_to_xyz el = coords_to_xyz (name el) (x el) (y el) (z el)"

definition format_geometry ::
  "(string \<Rightarrow> 'f \<Rightarrow> 'f \<Rightarrow> 'f \<Rightarrow> string) \<Rightarrow> 'f Geometry \<Rightarrow> string \<Rightarrow> string" where
  "format_geometry coords_to_xyz geometry line_sep =
     join line_sep (map (Element_to_xyz coords_to_xyz) (elements geometry))"

definition format_geometry_from_mol ::
  "(string \<Rightarrow> 'f \<Rightarrow> 'f \<Rightarrow> 'f \<Rightarrow> string) \<Rightarrow> 'f Mol \<Rightarrow> string \<Rightarrow> string" where
  "format_geometry_from_mol coords_to_xyz mol line_sep =
     format_geometry coords_to_xyz (from_mol mol) line_sep"

section \<open>The solver utilities (qdk\_chemistry/solvers/util.py)\<close>

definition num_atoms_from_mol :: "'f Mol \<Rightarrow> nat" where
  "num_atoms_from_mol mol = length (GetAtoms mol)"

definition num_electrons :: "'f Mol \<Rightarrow> nat" where
  "num_electrons mol = sum_list (GetAtoms mol)"

text \<open>The argument \<^verbatim>\<open>geometry: Union[str, Geometry]\<close>; \<open>None\<close> when it is not given.\<close>

datatype 'f geometry_arg = GeomStr string | GeomObj "'f Geometry"

definition ignoring_mol :: string where
  "ignoring_mol = ''Ignoring mol and using specified geometry string instead.''"

text \<open>The result is paired with the warnings that \<^verbatim>\<open>warnings.warn\<close> has issued.\<close>

definition formatted_geometry_str ::
  "(string \<Rightarrow> 'f \<Rightarrow> 'f \<Rightarrow> 'f \<Rightarrow> string) \<Rightarrow> 'f Mol \<Rightarrow> 'f geometry_arg option \<Rightarrow> string
     \<Rightarrow> string \<times> string list" where
  "formatted_geometry_str coords_to_xyz mol geometry line_sep =
     (case geometry of
        None \<Rightarrow> (format_geometry_from_mol coords_to_xyz mol line_sep, [])
      | Some (GeomObj g) \<Rightarrow> (format_geometry coords_to_xyz g line_sep, [ignoring_mol])
      | Some (GeomStr s) \<Rightarrow> (s, [ignoring_mol]))"

section \<open>The OpenMolcas input deck (qdk\_chemistry/solvers/openmolcas.py)\<close>

subsection \<open>Python values in a template\<close>

text \<open>
  The values that are substituted are integers or strings; \<^verbatim>\<open>str.format\<close> puts the
  \<^verbatim>\<open>str\<close> of each into the text.
\<close>

datatype pyval = PyInt int | PyStr string

definition digit_char :: "nat \<Rightarrow> char" where
  "digit_char n = ''0123456789'' ! n"

function str_nat :: "nat \<Rightarrow> string" where
  "str_nat n = (if n < 10 then [digit_char n] else str_nat (n div 10) @ [digit_char (n mod 10)])"
  by pat_completeness auto
termination
  by (relation "measure id") auto

declare str_nat.simps [simp del]

definition str_int :: "int \<Rightarrow> string" where
  "str_int i = (if i < 0 then ''-'' @ str_nat (nat (- i)) else str_nat (nat i))"

fun str :: "pyval \<Rightarrow> string" where
  "str (PyInt i) = str_int i"
| "str (PyStr s) = s"

text \<open>\<^verbatim>\<open>str.upper\<close> on ASCII text.\<close>

definition to_upper :: "char \<Rightarrow> char" where
  "to_upper c =
     (case map_of (zip ''abcdefghijklmnopqrstuvwxyz'' ''ABCDEFGHIJKLMNOPQRSTUVWXYZ'') c of
        Some u \<Rightarrow> u
      | None \<Rightarrow> c)"

definition upper :: "string \<Rightarrow> string" where
  "upper s = map to_upper s"

text \<open>
  \<^verbatim>\<open>template.format(**kw)\<close> for a template whose replacement fields are plain names in
  braces, as the three templates of this module are: the text is copied, and each field
  \<^verbatim>\<open>{name}\<close> is replaced by the value given for the name. A name without a value
  raises \<^verbatim>\<open>KeyError\<close>.
\<close>

function format :: "string \<Rightarrow> (string \<rightharpoonup> string) \<Rightarrow> error + string" where
  "format [] kw = Inr []"
| "format (c # cs) kw =
     (if c = CHR ''{'' then
        (let field = takeWhile (\<lambda>d. d \<noteq> CHR ''}'') cs;
             rest = drop 1 (dropWhile (\<lambda>d. d \<noteq> CHR ''}'') cs)
         in case kw field of
              None \<Rightarrow> Inl (KeyError field)
            | Some v \<Rightarrow> (case format rest kw of Inl e \<Rightarrow> Inl e | Inr t \<Rightarrow> Inr (v @ t)))
      else (case format cs kw of Inl e \<Rightarrow> Inl e | Inr t \<Rightarrow> Inr (c # t)))"
  by pat_completeness auto
termination
proof (relation "measure (\<lambda>(t, kw). length t)")
  show "wf (measure (\<lambda>(t, kw). length t))" by simp
next
  fix c :: char and cs :: string and kw :: "string \<rightharpoonup> string" and field rest
  assume "rest = drop 1 (dropWhile (\<lambda>d. d \<noteq> CHR ''}'') cs)"
  then have "length rest \<le> length cs"
    using length_dropWhile_le[of "\<lambda>d. d \<noteq> CHR ''}''" cs] by simp
  then show "((rest, kw), (c # cs, kw)) \<in> measure (\<lambda>(t, kw). length t)" by simp
next
  fix c :: char and cs :: string and kw :: "string \<rightharpoonup> string"
  show "((cs, kw), (c # cs, kw)) \<in> measure (\<lambda>(t, kw). length t)" by simp
qed

subsection \<open>The templates\<close>

definition GEOMETRY_LINE_SEP :: string where
  "GEOMETRY_LINE_SEP = ''\<newline>  ''"

definition OPENMOLCAS_TEMPLATE :: string where
  "OPENMOLCAS_TEMPLATE =
     ''\<newline>'' @
     ''&GATEWAY\<newline>'' @
     ''Coord\<newline>'' @
     ''  {num_atoms}\<newline>'' @
     ''  {mol_name}\<newline>'' @
     ''  {geometry}\<newline>'' @
     ''Basis={basis}\<newline>'' @
     ''Group={symmetry}\<newline>'' @
     ''\<newline>'' @
     ''&SEWARD\<newline>'' @
     ''{integral_keyword}\<newline>'' @
     ''\<newline>'' @
     ''&SCF\<newline>'' @
     ''Charge={charge}\<newline>'' @
     ''Spin={spin}\<newline>'' @
     ''{rasscf_section}\<newline>''"

definition OPENMOLCAS_TEMPLATE_CASSCF :: string where
  "OPENMOLCAS_TEMPLATE_CASSCF =
     ''\<newline>'' @
     ''&RASSCF\<newline>'' @
     ''  Charge= {charge}\<newline>'' @
     ''  Nactel  =  {num_active_el}\<newline>'' @
     ''  Ras2  =  {num_active_orbitals}\<newline>'' @
     ''  Ciroot  =  {nroot} {nroot} 1\<newline>''"

definition OPEN_MOLCAS_TEMPLATE_FCIDUMP :: string where
  "OPEN_MOLCAS_TEMPLATE_FCIDUMP =
     ''\<newline>'' @
     ''&RASSCF\<newline>'' @
     ''  DMRG\<newline>'' @
     ''  FCIDUMP\<newline>'' @
     ''  TYPEINDEX\<newline>'' @
     ''  Spin={spin}\<newline>'' @
     ''  Charge={charge}\<newline>'' @
     ''\<newline>'' @
     ''  RGINPUT\<newline>'' @
     ''  nsweeps = 5\<newline>'' @
     ''  max_bond_dimension = 500\<newline>'' @
     ''  ENDRG\<newline>''"

subsection \<open>create\_input\_deck\<close>

text \<open>
  \<^verbatim>\<open>formatted_num_active_el\<close>, which the module imports from the solver utilities, is a
  parameter \<open>active_el\<close>, as \<^verbatim>\<open>element_coords_to_xyz\<close> is the parameter
  \<open>coords_to_xyz\<close>. The argument \<^verbatim>\<open>charge\<close> is written \<open>charge_arg\<close> here. The deck is
  paired with the warnings issued on the way.
\<close>

definition create_input_deck ::
  "(string \<Rightarrow> 'f \<Rightarrow> 'f \<Rightarrow> 'f \<Rightarrow> string) \<Rightarrow> ('f Mol \<Rightarrow> int option \<Rightarrow> pyval)
     \<Rightarrow> 'f Mol \<Rightarrow> string \<Rightarrow> 'f geometry_arg option \<Rightarrow> int option \<Rightarrow> pyval
     \<Rightarrow> string \<Rightarrow> string \<Rightarrow> string \<Rightarrow> string \<Rightarrow> bool \<Rightarrow> int option \<Rightarrow> int \<Rightarrow> int
     \<Rightarrow> (error + string) \<times> string list" where
  "create_input_deck coords_to_xyz active_el mol mol_name geometry charge_arg spin
       basis symmetry integral_keyword method get_broombridge num_active_el
       num_active_orbitals ci_root =
     (let (formatted_geometry, warned) =
            formatted_geometry_str coords_to_xyz mol geometry GEOMETRY_LINE_SEP;
          num_atoms = (case geometry of
                         Some (GeomObj g) \<Rightarrow> int (length (elements g))
                       | _ \<Rightarrow> int (num_atoms_from_mol mol));
          charge_used = (case charge_arg of Some ch \<Rightarrow> ch | None \<Rightarrow> GetFormalCharge mol);
          rasscf_section =
            (if upper method = ''CASSCF'' \<and> \<not> get_broombridge then
               format OPENMOLCAS_TEMPLATE_CASSCF
                 [''charge'' \<mapsto> str_int charge_used,
                  ''num_active_el'' \<mapsto> str (active_el mol num_active_el),
                  ''num_active_orbitals'' \<mapsto> str_int num_active_orbitals,
                  ''nroot'' \<mapsto> str_int ci_root]
             else if get_broombridge then
               format OPEN_MOLCAS_TEMPLATE_FCIDUMP
                 [''spin'' \<mapsto> str spin, ''charge'' \<mapsto> str_int charge_used]
             else Inr [])
      in case rasscf_section of
           Inl e \<Rightarrow> (Inl e, warned)
         | Inr section_text \<Rightarrow>
             (format OPENMOLCAS_TEMPLATE
                [''num_atoms'' \<mapsto> str_int num_atoms,
                 ''mol_name'' \<mapsto> mol_name,
                 ''geometry'' \<mapsto> formatted_geometry,
                 ''basis'' \<mapsto> basis,
                 ''symmetry'' \<mapsto> symmetry,
                 ''integral_keyword'' \<mapsto> integral_keyword,
                 ''charge'' \<mapsto> str_int charge_used,
                 ''spin'' \<mapsto> str spin,
                 ''rasscf_section'' \<mapsto> section_text],
              warned))"

section \<open>Writing a geometry as XYZ text\<close>






section \<open>Notions used to state the properties of the client\<close>

text \<open>
  The lines of a text (as \<^verbatim>\<open>str.split\<close> at newlines gives them), a text without its
  final newline and without its leading blanks, and the relation that every member of a
  first list is matched, in order, by a member of its own of a second list.
\<close>

definition chomp :: "string \<Rightarrow> string" where
  "chomp s = (if s \<noteq> [] \<and> last s = newline then butlast s else s)"

definition lstrip :: "string \<Rightarrow> string" where
  "lstrip s = dropWhile (\<lambda>c. c = CHR '' '') s"

fun split_lines :: "string \<Rightarrow> string list" where
  "split_lines [] = [[]]"
| "split_lines (c # cs) =
     (if c = newline then [] # split_lines cs
      else (case split_lines cs of [] \<Rightarrow> [[c]] | l # ls \<Rightarrow> (c # l) # ls))"

fun in_order :: "('a \<Rightarrow> 'b \<Rightarrow> bool) \<Rightarrow> 'a list \<Rightarrow> 'b list \<Rightarrow> bool" where
  "in_order P [] ls = True"
| "in_order P (e # es) [] = False"
| "in_order P (e # es) (l # ls) = ((P e l \<and> in_order P es ls) \<or> in_order P (e # es) ls)"

definition each_on_own_line :: "string list \<Rightarrow> string \<Rightarrow> bool" where
  "each_on_own_line errs msg =
     in_order (\<lambda>e l. lstrip l = lstrip (chomp e)) errs (split_lines msg)"


text \<open>Messages and collaborators for concrete runs.\<close>

definition stderr_msg :: "string \<Rightarrow> message" where
  "stderr_msg t = \<lparr>msg_type = ''stream'',
      content = \<lparr>stream_name = ''stderr'', stream_text = t, data = Map.empty\<rparr>\<rparr>"

definition result_msg :: "(string \<rightharpoonup> string) \<Rightarrow> message" where
  "result_msg d = \<lparr>msg_type = ''execute_result'',
      content = \<lparr>stream_name = [], stream_text = [], data = d\<rparr>\<rparr>"

definition no_json :: "string \<Rightarrow> unit option" where
  "no_json s = None"

definition scripted :: "message list \<Rightarrow> (unit, unit) collaborators" where
  "scripted msgs = \<lparr>json_loads = no_json, unmap_tuples = id, kernel = (\<lambda>cmd. msgs)\<rparr>"

definition fresh :: client where
  "fresh = \<lparr>sent = [], passed_on = []\<rparr>"

definition digit_json :: "string \<Rightarrow> nat option" where
  "digit_json s = (if s = ''1'' then Some 1 else None)"

definition decoding :: "message list \<Rightarrow> (nat, nat) collaborators" where
  "decoding msgs = \<lparr>json_loads = digit_json, unmap_tuples = id, kernel = (\<lambda>cmd. msgs)\<rparr>"


section \<open>Notions used to state the properties of the geometry\<close>

text \<open>
  A text that \<^verbatim>\<open>FLOAT_PATTERN\<close> matches as a whole; a coordinate line of an XYZ text,
  \<^verbatim>\<open>symbol float float float\<close> with single blanks and a final newline; an atom whose
  symbol is made of word characters and whose coordinates are such floats; what the scan
  keeps of an atom; and a text at whose head a run of a character class ends.
\<close>

definition float_text :: "string \<Rightarrow> bool" where
  "float_text f \<longleftrightarrow> FLOAT_PATTERN f = Some (f, [])"

definition xyz_line :: "string \<times> string \<times> string \<times> string \<Rightarrow> string" where
  "xyz_line a = (case a of (symb, f1, f2, f3) \<Rightarrow>
     symb @ '' '' @ f1 @ '' '' @ f2 @ '' '' @ f3 @ [newline])"

definition well_formed_atom :: "string \<times> string \<times> string \<times> string \<Rightarrow> bool" where
  "well_formed_atom a = (case a of (symb, f1, f2, f3) \<Rightarrow>
     symb \<noteq> [] \<and> (\<forall>c\<in>set symb. is_word c) \<and> float_text f1 \<and> float_text f2 \<and> float_text f3)"

definition parsed_atom :: "string \<times> string \<times> string \<times> string \<Rightarrow> string \<times> string \<times> string \<times> string" where
  "parsed_atom a = (case a of (symb, f1, f2, f3) \<Rightarrow> ([last symb], f1, f2, f3))"

definition stops :: "(char \<Rightarrow> bool) \<Rightarrow> string \<Rightarrow> bool" where
  "stops P r \<longleftrightarrow> (case r of [] \<Rightarrow> True | c # _ \<Rightarrow> \<not> P c)"


text \<open>
  The number of coordinate lines as the specification words it: of the lines after the
  count line and the title line, those that are an element symbol and three floats,
  separated by single blanks, and nothing else.
\<close>

definition parses_as_coordinate_line :: "string \<Rightarrow> bool" where
  "parses_as_coordinate_line l \<longleftrightarrow>
     takeWhile is_word l \<noteq> [] \<and>
     (case XYZ_PATTERN (last (takeWhile is_word l) # dropWhile is_word l) of
        None \<Rightarrow> False
      | Some (t, r) \<Rightarrow> r = [])"

definition coordinate_lines :: "string \<Rightarrow> string list" where
  "coordinate_lines xyz = filter parses_as_coordinate_line (drop 2 (split_lines xyz))"


section \<open>Notions used to state the properties of the input deck\<close>

text \<open>
  The texts that the three templates give once their fields are filled in: the two
  \<^verbatim>\<open>RASSCF\<close> sections, and the deck up to and including the line \<^verbatim>\<open>Spin=\<close>, which is
  the \<^verbatim>\<open>GATEWAY\<close>, \<^verbatim>\<open>SEWARD\<close> and \<^verbatim>\<open>SCF\<close> header.
\<close>

definition CASSCF_section :: "string \<Rightarrow> string \<Rightarrow> string \<Rightarrow> string \<Rightarrow> string" where
  "CASSCF_section ch nactel ras2 nroot =
     ''\<newline>&RASSCF\<newline>  Charge= '' @ ch @
     ''\<newline>  Nactel  =  '' @ nactel @
     ''\<newline>  Ras2  =  '' @ ras2 @
     ''\<newline>  Ciroot  =  '' @ nroot @ '' '' @ nroot @ '' 1\<newline>''"

definition FCIDUMP_section :: "string \<Rightarrow> string \<Rightarrow> string" where
  "FCIDUMP_section sp ch =
     ''\<newline>&RASSCF\<newline>  DMRG\<newline>  FCIDUMP\<newline>  TYPEINDEX\<newline>  Spin='' @ sp @
     ''\<newline>  Charge='' @ ch @
     ''\<newline>\<newline>  RGINPUT\<newline>  nsweeps = 5\<newline>  max_bond_dimension = 500\<newline>  ENDRG\<newline>''"

definition deck_header ::
  "string \<Rightarrow> string \<Rightarrow> string \<Rightarrow> string \<Rightarrow> string \<Rightarrow> string \<Rightarrow> string \<Rightarrow> string \<Rightarrow> string" where
  "deck_header natoms mname geom bas sym_group ikey ch sp =
     ''\<newline>&GATEWAY\<newline>Coord\<newline>  '' @ natoms @
     ''\<newline>  '' @ mname @
     ''\<newline>  '' @ geom @
     ''\<newline>Basis='' @ bas @
     ''\<newline>Group='' @ sym_group @
     ''\<newline>\<newline>&SEWARD\<newline>'' @ ikey @
     ''\<newline>\<newline>&SCF\<newline>Charge='' @ ch @
     ''\<newline>Spin='' @ sp @ ''\<newline>''"

text \<open>
  The charge as the specification words it: that of the source the geometry was taken
  from, which is the explicit \<^verbatim>\<open>Geometry\<close> when one is given and the molecule otherwise.
\<close>

definition charge_of_source_used :: "'f Mol \<Rightarrow> 'f geometry_arg option \<Rightarrow> int option" where
  "charge_of_source_used mol geometry =
     (case geometry of
        Some (GeomObj g) \<Rightarrow> charge g
      | _ \<Rightarrow> Some (GetFormalCharge mol))"

text \<open>
  Collaborators and inputs for concrete runs: a printer of one element, a count of active
  electrons, the molecule H2 and the geometry of a lithium cation. The coordinates are
  kept as their texts.
\<close>

definition print_element :: "string \<Rightarrow> string \<Rightarrow> string \<Rightarrow> string \<Rightarrow> string" where
  "print_element n a b c = n @ '' '' @ a @ '' '' @ b @ '' '' @ c"

definition electrons_or_given :: "string Mol \<Rightarrow> int option \<Rightarrow> pyval" where
  "electrons_or_given mol n = PyInt (case n of Some k \<Rightarrow> k | None \<Rightarrow> int (num_electrons mol))"

definition hydrogen :: "string Mol" where
  "hydrogen = \<lparr>GetAtoms = [1, 1], GetFormalCharge = 0,
      mol_to_coordinates = [(''H'', ''0.0'', ''0.0'', ''0.0''), (''H'', ''0.0'', ''0.0'', ''0.74'')]\<rparr>"

definition lithium_cation :: "string Geometry" where
  "lithium_cation = \<lparr>elements = [\<lparr>name = ''Li'', x = ''0.0'', y = ''0.0'', z = ''0.0''\<rparr>],
      charge = Some 1\<rparr>"


section \<open>Notions used to state the properties of the XYZ text\<close>




section \<open>Properties of execute\<close>

lemma fold_output_hook:
  "fold (output_hook r) msgs st =
     st\<lparr>results := results st @ filter is_result msgs,
        errors := errors st @
          map (\<lambda>m. stream_text (content m)) (filter (\<lambda>m. r \<and> \<not> is_result m \<and> is_stderr m) msgs),
        forwarded := forwarded st @
          filter (\<lambda>m. \<not> is_result m \<and> \<not> (r \<and> is_stderr m)) msgs\<rparr>"
proof (induction msgs arbitrary: st)
  case Nil
  show ?case by simp
next
  case (Cons m msgs)
  show ?case
    by (simp add: Cons.IH) (simp add: output_hook_def is_result_def is_stderr_def)
qed

lemma stderr_not_result: "is_stderr m \<Longrightarrow> \<not> is_result m"
  by (simp add: is_stderr_def is_result_def)

lemma results_collected:
  "results (execute_interactive env input (output_hook r)
              \<lparr>results = [], errors = [], forwarded = []\<rparr>)
     = filter is_result (kernel env input)"
  by (simp add: execute_interactive_def fold_output_hook)

lemma errors_collected:
  "errors (execute_interactive env input (output_hook r)
             \<lparr>results = [], errors = [], forwarded = []\<rparr>)
     = (if r then map (\<lambda>m. stream_text (content m)) (filter is_stderr (kernel env input))
        else [])"
proof -
  have "filter (\<lambda>m. \<not> is_result m \<and> is_stderr m) (kernel env input)
          = filter is_stderr (kernel env input)"
    by (rule filter_cong) (auto dest: stderr_not_result)
  then show ?thesis
    by (simp add: execute_interactive_def fold_output_hook)
qed

lemma split_lines_no_newline: "newline \<notin> set s \<Longrightarrow> split_lines s = [s]"
  by (induction s) auto

lemma split_lines_append_newline:
  "newline \<notin> set s \<Longrightarrow> split_lines (s @ newline # t) = s # split_lines t"
  by (induction s) auto

lemma in_order_skip: "in_order P es ls \<Longrightarrow> in_order P es (l # ls)"
  by (cases es) auto

lemma in_order_map: "(\<And>e. e \<in> set es \<Longrightarrow> P e (f e)) \<Longrightarrow> in_order P es (map f es @ ls)"
  by (induction es) auto

lemma split_lines_terminated:
  assumes "\<forall>e\<in>set errs. e \<noteq> [] \<and> last e = newline \<and> newline \<notin> set (butlast e)"
  shows "split_lines (concat (map (\<lambda>e. indent @ e) errs)) = map (\<lambda>e. indent @ butlast e) errs @ [[]]"
  using assms
proof (induction errs)
  case Nil
  show ?case by simp
next
  case (Cons e errs)
  then have e: "e = butlast e @ [newline]" and nn: "newline \<notin> set (indent @ butlast e)"
    by (auto simp: indent_def newline_def dest: append_butlast_last_id[symmetric])
  have "split_lines (concat (map (\<lambda>e. indent @ e) (e # errs)))
        = split_lines ((indent @ butlast e) @ newline # concat (map (\<lambda>e. indent @ e) errs))"
    using e by (metis append.assoc append_Cons append_Nil concat.simps(2) list.simps(9))
  also have "\<dots> = (indent @ butlast e) # split_lines (concat (map (\<lambda>e. indent @ e) errs))"
    using nn by (rule split_lines_append_newline)
  finally show ?case using Cons by simp
qed

text \<open>
  Claim C1, as the code has it. When \<^verbatim>\<open>raise_on_stderr\<close> is set and at least one
  error-stream message arrives, \<^verbatim>\<open>execute\<close> raises \<^verbatim>\<open>IQSharpError\<close> and returns no
  value. The error carries the captured texts in the order received, and its message is
  the banner line followed by the captured texts in that order, each after four blanks
  and with nothing put between them. When every captured text is one line that ends with
  its own newline, each is on a line of its own in the message.
\<close>
theorem execute_raises_on_stderr:
  assumes "raise_on_stderr"
    and "filter is_stderr (kernel env input) \<noteq> []"
  shows "let errs = map (\<lambda>m. stream_text (content m)) (filter is_stderr (kernel env input));
             msg = banner @ [newline] @ concat (map (\<lambda>e. indent @ e) errs)
         in fst (execute env input return_full_result raise_on_stderr cl) = Inl (IQSharpError errs msg)
          \<and> ((\<forall>e\<in>set errs. e \<noteq> [] \<and> last e = newline \<and> newline \<notin> set (butlast e))
                \<longrightarrow> each_on_own_line errs msg)"
proof -
  define errs where "errs = map (\<lambda>m. stream_text (content m)) (filter is_stderr (kernel env input))"
  define msg where "msg = banner @ [newline] @ concat (map (\<lambda>e. indent @ e) errs)"
  have ne: "errs \<noteq> []" using assms(2) by (simp add: errs_def)
  have raised: "fst (execute env input return_full_result raise_on_stderr cl) = Inl (IQSharpError errs msg)"
    using assms(1) ne
    by (simp add: execute_def Let_def errors_collected errs_def[symmetric] IQSharpError_init_def
        StringIO_writelines_def msg_def)
  have lines: "each_on_own_line errs msg"
    if t: "\<forall>e\<in>set errs. e \<noteq> [] \<and> last e = newline \<and> newline \<notin> set (butlast e)"
  proof -
    have "newline \<notin> set banner" by (simp add: banner_def newline_def)
    then have "split_lines msg = banner # (map (\<lambda>e. indent @ butlast e) errs @ [[]])"
      unfolding msg_def using split_lines_terminated[OF t]
      by (simp add: split_lines_append_newline)
    moreover have "in_order (\<lambda>e l. lstrip l = lstrip (chomp e)) errs
           (map (\<lambda>e. indent @ butlast e) errs @ [[]])"
    proof (rule in_order_map)
      fix e assume "e \<in> set errs"
      with t have "chomp e = butlast e" by (simp add: chomp_def)
      then show "lstrip (indent @ butlast e) = lstrip (chomp e)"
        by (simp add: lstrip_def indent_def)
    qed
    ultimately show ?thesis
      by (simp add: each_on_own_line_def in_order_skip)
  qed
  show ?thesis using raised lines unfolding Let_def errs_def msg_def by blast
qed

lemma is_stderr_stderr_msg: "is_stderr (stderr_msg t)"
  by (simp add: is_stderr_def stderr_msg_def)

lemma is_result_result_msg: "is_result (result_msg d)"
  by (simp add: is_result_def result_msg_def)

lemma not_stderr_result_msg: "\<not> is_stderr (result_msg d)"
  by (simp add: is_stderr_def result_msg_def)

lemma not_result_stderr_msg: "\<not> is_result (stderr_msg t)"
  by (simp add: is_result_def stderr_msg_def)

text \<open>Claim C1 at two error texts that end with a newline.\<close>
theorem execute_raises_on_stderr_witness:
  "fst (execute (scripted [stderr_msg ''a\<newline>'', stderr_msg ''b\<newline>'']) ''%workspace reload'' False True fresh)
     = Inl (IQSharpError [''a\<newline>'', ''b\<newline>'']
              ''The Q# kernel raised the following errors:\<newline>    a\<newline>    b\<newline>'')
   \<and> each_on_own_line [''a\<newline>'', ''b\<newline>'']
         ''The Q# kernel raised the following errors:\<newline>    a\<newline>    b\<newline>''"
  using execute_raises_on_stderr [of True "scripted [stderr_msg ''a\<newline>'', stderr_msg ''b\<newline>'']"
      "''%workspace reload''" False fresh]
  by (simp add: scripted_def is_stderr_stderr_msg Let_def banner_def indent_def newline_def)
     (simp add: stderr_msg_def)

text \<open>
  Claim C1 as stated fails where the captured texts do not end with a newline: the two
  texts \<^verbatim>\<open>a\<close> and \<^verbatim>\<open>b\<close> come out on one line of the message.
\<close>
theorem error_lines_share_a_line:
  "fst (execute (scripted [stderr_msg ''a'', stderr_msg ''b'']) ''%workspace reload'' False True fresh)
     = Inl (IQSharpError [''a'', ''b''] ''The Q# kernel raised the following errors:\<newline>    a    b'')
   \<and> split_lines ''The Q# kernel raised the following errors:\<newline>    a    b''
       = [''The Q# kernel raised the following errors:'', ''    a    b'']
   \<and> \<not> each_on_own_line [''a'', ''b''] ''The Q# kernel raised the following errors:\<newline>    a    b''"
  by (simp add: execute_def Let_def errors_collected scripted_def is_stderr_stderr_msg
        IQSharpError_init_def StringIO_writelines_def banner_def indent_def newline_def
        each_on_own_line_def lstrip_def chomp_def)
     (simp add: stderr_msg_def)


text \<open>
  Claim C2. When two or more result messages arrive for one command and no error text was
  accumulated, \<^verbatim>\<open>execute\<close> fails at its assertion \<^verbatim>\<open>len(results) == 1\<close> and returns
  none of the results.
\<close>
theorem execute_several_results:
  assumes "2 \<le> length (filter is_result (kernel env input))"
    and "\<not> raise_on_stderr \<or> filter is_stderr (kernel env input) = []"
  shows "fst (execute env input return_full_result raise_on_stderr cl) = Inl AssertionError"
  using assms
  by (auto simp: execute_def Let_def errors_collected results_collected)

text \<open>Claim C2 at a kernel that answers with two results.\<close>
theorem execute_several_results_witness:
  "fst (execute (scripted [result_msg [''application/json'' \<mapsto> ''1''],
                           result_msg [''application/json'' \<mapsto> ''2'']])
          ''%who'' False True fresh) = Inl AssertionError"
  using execute_several_results [of "scripted [result_msg [''application/json'' \<mapsto> ''1''],
                           result_msg [''application/json'' \<mapsto> ''2'']]" "''%who''" True False fresh]
  by (simp add: scripted_def is_result_result_msg not_stderr_result_msg)

text \<open>
  Claim C3, as the code has it. When exactly one result message and no error-stream
  message arrive, what \<^verbatim>\<open>execute\<close> does is fixed by the data of that message. Without
  the key \<^verbatim>\<open>application/json\<close> it returns \<^verbatim>\<open>None\<close>. With a payload under the key that
  \<^verbatim>\<open>json.loads\<close> accepts, it returns the payload decoded by \<^verbatim>\<open>json.loads\<close> and then by
  \<^verbatim>\<open>unmap_tuples\<close>. With a payload that \<^verbatim>\<open>json.loads\<close> rejects, the error of
  \<^verbatim>\<open>json.loads\<close> reaches the caller and nothing is returned. With
  \<^verbatim>\<open>return_full_result\<close> a returned value is paired with the content of the message.
\<close>
theorem execute_single_result:
  assumes "filter is_result (kernel env input) = [m]"
    and "filter is_stderr (kernel env input) = []"
  shows "fst (execute env input return_full_result raise_on_stderr cl)
     = (case data (content m) ''application/json'' of
          None \<Rightarrow> Inr (if return_full_result then Full None (content m) else Obj None)
        | Some payload \<Rightarrow>
            (case json_loads env payload of
               None \<Rightarrow> Inl JSONDecodeError
             | Some j \<Rightarrow>
                 Inr (if return_full_result then Full (Some (unmap_tuples env j)) (content m)
                      else Obj (Some (unmap_tuples env j)))))"
  using assms
  by (simp add: execute_def Let_def errors_collected results_collected full_or_obj_def
      split: option.splits)

text \<open>
  Claim C3 at one result with a JSON payload, at one result without the key, and at one
  result with a payload that is not JSON.
\<close>
theorem execute_single_result_witness:
  "fst (execute (decoding [result_msg [''application/json'' \<mapsto> ''1'']]) ''%who'' False True fresh)
     = Inr (Obj (Some 1))
   \<and> fst (execute (decoding [result_msg [''text/plain'' \<mapsto> ''1'']]) ''%who'' False True fresh)
     = Inr (Obj None)
   \<and> fst (execute (decoding [result_msg [''application/json'' \<mapsto> ''{'']]) ''%who'' True True fresh)
     = Inl JSONDecodeError"
  using execute_single_result [of "decoding [result_msg [''application/json'' \<mapsto> ''1'']]" "''%who''"
      "result_msg [''application/json'' \<mapsto> ''1'']" False True fresh]
    execute_single_result [of "decoding [result_msg [''text/plain'' \<mapsto> ''1'']]" "''%who''"
      "result_msg [''text/plain'' \<mapsto> ''1'']" False True fresh]
    execute_single_result [of "decoding [result_msg [''application/json'' \<mapsto> ''{'']]" "''%who''"
      "result_msg [''application/json'' \<mapsto> ''{'']" True True fresh]
  by (simp add: decoding_def is_result_result_msg not_stderr_result_msg digit_json_def)
     (simp add: result_msg_def decoding_def digit_json_def)

text \<open>
  Claim C3 as stated fails where the payload is not JSON: the kernel answers with one
  result and no error-stream message, and \<^verbatim>\<open>execute\<close> raises the error of
  \<^verbatim>\<open>json.loads\<close>.
\<close>
theorem execute_rejected_payload:
  "filter is_result [result_msg [''application/json'' \<mapsto> ''not json'']]
     = [result_msg [''application/json'' \<mapsto> ''not json'']]
   \<and> filter is_stderr [result_msg [''application/json'' \<mapsto> ''not json'']] = []
   \<and> fst (execute (decoding [result_msg [''application/json'' \<mapsto> ''not json'']])
          ''%who'' False False fresh) = Inl JSONDecodeError"
  by (simp add: is_result_result_msg not_stderr_result_msg execute_def Let_def
        errors_collected results_collected decoding_def digit_json_def)
     (simp add: result_msg_def decoding_def digit_json_def)

text \<open>
  Claim C4 fails on the code. \<^verbatim>\<open>get_packages\<close> evaluates the name \<^verbatim>\<open>False1\<close> for the
  argument \<^verbatim>\<open>raise_on_stderr\<close>, which raises \<^verbatim>\<open>NameError\<close> before \<^verbatim>\<open>execute\<close> is
  called: no command is sent, whatever the client and the kernel.
\<close>
theorem get_packages_raises_NameError:
  "get_packages env cl = (Inl (NameError ''False1''), cl)"
  by (simp add: get_packages_def load_name_def)

text \<open>
  The sibling \<^verbatim>\<open>get_available_operations\<close> passes \<^verbatim>\<open>False\<close> and does send its
  command.
\<close>
lemma get_available_operations_sends:
  "snd (get_available_operations env cl)
     = cl\<lparr>sent := sent cl @ [''%who''],
          passed_on := passed_on cl @ filter (\<lambda>m. \<not> is_result m) (kernel env ''%who'')\<rparr>"
  by (simp add: get_available_operations_def load_name_def execute_def Let_def
        execute_interactive_def fold_output_hook split: option.splits)

section \<open>Properties of from\_xyz\<close>

lemma takeWhile_run: "\<forall>c\<in>set a. P c \<Longrightarrow> stops P r \<Longrightarrow> takeWhile P (a @ r) = a"
  by (auto simp: stops_def takeWhile_append2 split: list.splits)

lemma dropWhile_run: "\<forall>c\<in>set a. P c \<Longrightarrow> stops P r \<Longrightarrow> dropWhile P (a @ r) = r"
  by (auto simp: stops_def dropWhile_append2 split: list.splits)

lemma stops_dropWhile: "stops P (dropWhile P s)"
  by (induction s) (auto simp: stops_def)

lemma FLOAT_PATTERN_parts:
  assumes "FLOAT_PATTERN s = Some (m, r)"
  obtains sign whole frac where
    "s = m @ r" "m = sign @ whole @ ''.'' @ frac"
    "sign = [] \<or> sign = ''+'' \<or> sign = ''-''"
    "\<forall>c\<in>set whole. is_digit c" "\<forall>c\<in>set frac. is_digit c" "frac \<noteq> []"
    "stops is_digit r"
proof -
  from assms obtain sign s1 s3 where
    1: "optional (\<lambda>c. c = CHR ''+'' \<or> c = CHR ''-'') s = Some (sign, s1)"
    and 3: "dropWhile is_digit s1 = CHR ''.'' # s3"
    and 4: "takeWhile is_digit s3 \<noteq> []"
    and r: "r = dropWhile is_digit s3"
    and m: "m = sign @ takeWhile is_digit s1 @ ''.'' @ takeWhile is_digit s3"
    by (auto simp: FLOAT_PATTERN_def star_def plus_def one_of_def
        split: option.splits prod.splits if_splits list.splits)
  from 1 have s: "s = sign @ s1" and sg: "sign = [] \<or> sign = ''+'' \<or> sign = ''-''"
    by (auto simp: optional_def split: list.splits if_splits)
  have "s1 = takeWhile is_digit s1 @ dropWhile is_digit s1" by simp
  then have s1: "s1 = takeWhile is_digit s1 @ ''.'' @ takeWhile is_digit s3 @ dropWhile is_digit s3"
    using 3 by simp
  have st: "stops is_digit r"
    unfolding r by (rule stops_dropWhile)
  show ?thesis
  proof (rule that[of sign "takeWhile is_digit s1" "takeWhile is_digit s3"])
    show "s = m @ r" using s s1 m r by simp
    show "m = sign @ takeWhile is_digit s1 @ ''.'' @ takeWhile is_digit s3" by (rule m)
    show "sign = [] \<or> sign = ''+'' \<or> sign = ''-''" by (rule sg)
    show "\<forall>c\<in>set (takeWhile is_digit s1). is_digit c" by (auto dest: set_takeWhileD)
    show "\<forall>c\<in>set (takeWhile is_digit s3). is_digit c" by (auto dest: set_takeWhileD)
    show "takeWhile is_digit s3 \<noteq> []" by (rule 4)
    show "stops is_digit r" by (rule st)
  qed
qed

lemma not_digit_chars [simp]:
  "\<not> is_digit (CHR ''.'')" "\<not> is_digit (CHR ''+'')" "\<not> is_digit (CHR ''-'')"
  "\<not> is_digit (CHR '' '')" "\<not> is_digit newline"
  by (simp_all add: is_digit_def newline_def)

lemma FLOAT_PATTERN_built:
  assumes "sign = [] \<or> sign = ''+'' \<or> sign = ''-''"
    and "\<forall>c\<in>set whole. is_digit c" and "\<forall>c\<in>set frac. is_digit c" and "frac \<noteq> []"
    and "stops is_digit r"
  shows "FLOAT_PATTERN (sign @ whole @ ''.'' @ frac @ r) = Some (sign @ whole @ ''.'' @ frac, r)"
proof -
  let ?s1 = "whole @ ''.'' @ frac @ r"
  have h: "?s1 \<noteq> [] \<and> hd ?s1 \<noteq> CHR ''+'' \<and> hd ?s1 \<noteq> CHR ''-''"
    using assms(2) by (cases whole) (auto simp: is_digit_def)
  have o: "optional (\<lambda>c. c = CHR ''+'' \<or> c = CHR ''-'') (sign @ ?s1) = Some (sign, ?s1)"
    using assms(1) h by (cases ?s1) (auto simp: optional_def)
  have st1: "stops is_digit (''.'' @ frac @ r)" by (simp add: stops_def)
  have t1: "takeWhile is_digit (whole @ CHR ''.'' # frac @ r) = whole"
    and d1: "dropWhile is_digit (whole @ CHR ''.'' # frac @ r) = CHR ''.'' # frac @ r"
    using takeWhile_run[OF assms(2) st1] dropWhile_run[OF assms(2) st1] by simp_all
  have t2: "takeWhile is_digit (frac @ r) = frac" and d2: "dropWhile is_digit (frac @ r) = r"
    using takeWhile_run[OF assms(3,5)] dropWhile_run[OF assms(3,5)] by simp_all
  show ?thesis
    unfolding FLOAT_PATTERN_def o
    by (simp add: star_def plus_def one_of_def t1 d1 t2 d2 assms(4))
qed

lemma FLOAT_PATTERN_append:
  assumes "float_text f" and "stops is_digit r"
  shows "FLOAT_PATTERN (f @ r) = Some (f, r)"
proof -
  from assms(1) have "FLOAT_PATTERN f = Some (f, [])" by (simp add: float_text_def)
  then obtain sign whole frac where
    f: "f = sign @ whole @ ''.'' @ frac"
    and p: "sign = [] \<or> sign = ''+'' \<or> sign = ''-''"
      "\<forall>c\<in>set whole. is_digit c" "\<forall>c\<in>set frac. is_digit c" "frac \<noteq> []"
    by (rule FLOAT_PATTERN_parts)
  show ?thesis
    using FLOAT_PATTERN_built[OF p assms(2)] by (simp add: f)
qed

lemma XYZ_PATTERN_line:
  assumes "is_word c" and "float_text f1" and "float_text f2" and "float_text f3"
    and "stops is_digit r"
  shows "XYZ_PATTERN (c # '' '' @ f1 @ '' '' @ f2 @ '' '' @ f3 @ r) = Some (([c], f1, f2, f3), r)"
proof -
  have b: "stops is_digit ('' '' @ u)" for u by (simp add: stops_def)
  have 1: "FLOAT_PATTERN (f1 @ '' '' @ f2 @ '' '' @ f3 @ r) = Some (f1, '' '' @ f2 @ '' '' @ f3 @ r)"
    by (rule FLOAT_PATTERN_append[OF assms(2) b])
  have 2: "FLOAT_PATTERN (f2 @ '' '' @ f3 @ r) = Some (f2, '' '' @ f3 @ r)"
    by (rule FLOAT_PATTERN_append[OF assms(3) b])
  have 3: "FLOAT_PATTERN (f3 @ r) = Some (f3, r)"
    by (rule FLOAT_PATTERN_append[OF assms(4,5)])
  show ?thesis
    using 1 2 3 assms(1) by (simp add: XYZ_PATTERN_def one_of_def blank_def)
qed

lemma XYZ_PATTERN_no_start:
  "\<not> is_word c \<or> stops (\<lambda>d. d = CHR '' '') s \<Longrightarrow> XYZ_PATTERN (c # s) = None"
  by (auto simp: XYZ_PATTERN_def one_of_def blank_def stops_def split: list.splits)

lemma findall_skip:
  assumes "CHR '' '' \<notin> set pre"
    and "pre = [] \<or> \<not> is_word (last pre) \<or> stops (\<lambda>d. d = CHR '' '') s"
  shows "re_findall_XYZ_PATTERN (pre @ s) = re_findall_XYZ_PATTERN s"
  using assms
proof (induction pre)
  case Nil
  show ?case by simp
next
  case (Cons p pre)
  have "XYZ_PATTERN (p # pre @ s) = None"
  proof (cases pre)
    case Nil
    with Cons.prems show ?thesis by (auto intro: XYZ_PATTERN_no_start)
  next
    case (Cons q qs)
    with Cons.prems(1) show ?thesis
      by (auto intro!: XYZ_PATTERN_no_start simp: stops_def)
  qed
  moreover have "re_findall_XYZ_PATTERN (pre @ s) = re_findall_XYZ_PATTERN s"
    using Cons by (cases pre) auto
  ultimately show ?case by simp
qed

lemma word_not_blank: "is_word c \<Longrightarrow> c \<noteq> CHR '' ''"
  by (auto simp: is_word_def)

lemma digit_not_blank: "is_digit c \<Longrightarrow> c \<noteq> CHR '' ''"
  by (auto simp: is_digit_def)

lemma findall_line:
  assumes "symb \<noteq> []" and "\<forall>c\<in>set symb. is_word c"
    and "float_text f1" and "float_text f2" and "float_text f3"
  shows "re_findall_XYZ_PATTERN (xyz_line (symb, f1, f2, f3) @ rest)
           = ([last symb], f1, f2, f3) # re_findall_XYZ_PATTERN rest"
proof -
  let ?tail = "'' '' @ f1 @ '' '' @ f2 @ '' '' @ f3 @ newline # rest"
  have symb: "symb = butlast symb @ [last symb]" using assms(1) by simp
  have w: "is_word (last symb)" using assms(1,2) by simp
  have nb: "CHR '' '' \<notin> set (butlast symb)"
    using assms(2) by (auto dest: in_set_butlastD word_not_blank)
  have "xyz_line (symb, f1, f2, f3) @ rest = butlast symb @ (last symb # ?tail)"
    using symb by (simp add: xyz_line_def)
  then have "re_findall_XYZ_PATTERN (xyz_line (symb, f1, f2, f3) @ rest)
               = re_findall_XYZ_PATTERN (last symb # ?tail)"
    using findall_skip[OF nb, of "last symb # ?tail"] w
    by (simp add: stops_def word_not_blank)
  also have "\<dots> = ([last symb], f1, f2, f3) # re_findall_XYZ_PATTERN (newline # rest)"
    using XYZ_PATTERN_line[OF w assms(3,4,5), of "newline # rest"]
    by (simp add: stops_def)
  also have "re_findall_XYZ_PATTERN (newline # rest) = re_findall_XYZ_PATTERN rest"
    using XYZ_PATTERN_no_start[of newline rest] by (simp add: is_word_def newline_def)
  finally show ?thesis .
qed

lemma findall_lines:
  "\<forall>a\<in>set atoms. well_formed_atom a \<Longrightarrow>
     re_findall_XYZ_PATTERN (concat (map xyz_line atoms)) = map parsed_atom atoms"
proof (induction atoms)
  case Nil
  show ?case by simp
next
  case (Cons a atoms)
  obtain symb f1 f2 f3 where a: "a = (symb, f1, f2, f3)" by (cases a)
  with Cons.prems have "symb \<noteq> []" "\<forall>c\<in>set symb. is_word c"
    "float_text f1" "float_text f2" "float_text f3"
    by (simp_all add: well_formed_atom_def)
  from findall_line[OF this, of "concat (map xyz_line atoms)"] Cons show ?case
    by (simp add: a parsed_atom_def)
qed

lemma findall_document:
  assumes "\<forall>c\<in>set ds. is_digit c" and "CHR '' '' \<notin> set title"
    and "\<forall>a\<in>set atoms. well_formed_atom a"
  shows "re_findall_XYZ_PATTERN (ds @ [newline] @ title @ [newline] @ concat (map xyz_line atoms))
           = map parsed_atom atoms"
proof -
  let ?pre = "ds @ [newline] @ title @ [newline]"
  have "CHR '' '' \<notin> set ?pre"
    using assms(1,2) by (auto simp: newline_def dest: digit_not_blank)
  moreover have "\<not> is_word (last ?pre)" by (simp add: is_word_def newline_def)
  ultimately have "re_findall_XYZ_PATTERN (?pre @ concat (map xyz_line atoms))
      = re_findall_XYZ_PATTERN (concat (map xyz_line atoms))"
    by (intro findall_skip) auto
  then show ?thesis using findall_lines[OF assms(3)] by simp
qed

lemma re_match_num_atoms_document:
  assumes "ds \<noteq> []" and "\<forall>c\<in>set ds. is_digit c"
  shows "re_match_num_atoms (ds @ [newline] @ rest) = Some ds"
proof -
  have nsp: "\<not> is_space (hd ds)"
    using assms by (cases ds) (auto simp: is_digit_def is_space_def)
  have "stops is_space (ds @ [newline] @ rest)"
    using assms(1) nsp by (cases ds) (auto simp: stops_def)
  then have lead: "dropWhile is_space (ds @ [newline] @ rest) = ds @ [newline] @ rest"
    by (cases "ds @ [newline] @ rest") (auto simp: stops_def)
  have st: "stops is_digit ([newline] @ rest)" by (simp add: stops_def)
  have t: "takeWhile is_digit (ds @ [newline] @ rest) = ds"
    and d: "dropWhile is_digit (ds @ [newline] @ rest) = [newline] @ rest"
    using takeWhile_run[OF assms(2) st] dropWhile_run[OF assms(2) st] by simp_all
  have "is_space newline" by (simp add: is_space_def newline_def)
  then have n: "newline \<in> set (takeWhile is_space ([newline] @ rest))" by simp
  show ?thesis
    unfolding re_match_num_atoms_def star_def plus_def
    using lead t d n assms(1) by simp
qed

lemma re_match_num_atoms_newline:
  assumes "re_match_num_atoms xyz = Some n"
  shows "newline \<in> set xyz"
proof -
  from assms have "newline \<in> set (takeWhile is_space (dropWhile is_digit (dropWhile is_space xyz)))"
    by (auto simp: re_match_num_atoms_def star_def plus_def split: if_splits)
  then show ?thesis
    by (auto dest!: set_takeWhileD set_dropWhileD)
qed

text \<open>
  Claim C5, as the code has it. When the text declares an atom count (the header pattern matches, with the
  digits \<open>n\<close>) and the number of coordinate matches that the scan finds differs from it,
  \<^verbatim>\<open>from_xyz\<close> fails at its assertion, and the failure reaches the caller as
  \<^verbatim>\<open>AssertionError\<close>. The matches are counted over the whole text, the title line
  included, and not line by line. For an XYZ text (a count, a title without blanks, one
  coordinate line for each atom) the matches are the coordinate lines, and the text fails
  when its count is not the number of its coordinate lines.
\<close>
theorem from_xyz_count_mismatch:
  "(re_match_num_atoms xyz = Some n \<and> length (re_findall_XYZ_PATTERN xyz) \<noteq> int_of_digits n
      \<longrightarrow> from_xyz to_float xyz = Inl AssertionError)
   \<and> (ds \<noteq> [] \<and> (\<forall>c\<in>set ds. is_digit c) \<and> CHR '' '' \<notin> set title
        \<and> (\<forall>a\<in>set atoms. well_formed_atom a) \<and> int_of_digits ds \<noteq> length atoms
      \<longrightarrow> from_xyz to_float (ds @ [newline] @ title @ [newline] @ concat (map xyz_line atoms))
            = Inl AssertionError)"
proof (intro conjI impI)
  assume a: "re_match_num_atoms xyz = Some n
      \<and> length (re_findall_XYZ_PATTERN xyz) \<noteq> int_of_digits n"
  then have "newline \<in> set xyz" by (auto dest: re_match_num_atoms_newline)
  with a show "from_xyz to_float xyz = Inl AssertionError"
    by (simp add: from_xyz_def Let_def)
next
  let ?doc = "ds @ [newline] @ title @ [newline] @ concat (map xyz_line atoms)"
  assume a: "ds \<noteq> [] \<and> (\<forall>c\<in>set ds. is_digit c) \<and> CHR '' '' \<notin> set title
        \<and> (\<forall>a\<in>set atoms. well_formed_atom a) \<and> int_of_digits ds \<noteq> length atoms"
  have n: "re_match_num_atoms ?doc = Some ds"
    using a by (intro re_match_num_atoms_document) auto
  have f: "re_findall_XYZ_PATTERN ?doc = map parsed_atom atoms"
    using a by (intro findall_document) auto
  show "from_xyz to_float ?doc = Inl AssertionError"
    using a n f by (simp add: from_xyz_def Let_def)
qed

text \<open>
  Claim C6. On a text with no newline character \<^verbatim>\<open>from_xyz\<close> returns the empty
  geometry and raises nothing.
\<close>
theorem from_xyz_without_newline:
  assumes "newline \<notin> set xyz"
  shows "from_xyz to_float xyz = Inr \<lparr>elements = [], charge = None\<rparr>"
  using assms by (simp add: from_xyz_def Geometry_init_def)

text \<open>
  Claim C10. On an XYZ text (a count, a title without blanks, one coordinate line for
  each atom) \<^verbatim>\<open>from_xyz\<close> returns one element for each line, and the name of the
  element is the last character of the line's symbol alone, so a symbol of two or more
  characters is not kept whole. Every geometry that \<^verbatim>\<open>from_xyz\<close> returns has the charge
  \<^verbatim>\<open>None\<close>.
\<close>
theorem from_xyz_one_character_name:
  "(ds \<noteq> [] \<and> (\<forall>c\<in>set ds. is_digit c) \<and> int_of_digits ds = length atoms
      \<and> CHR '' '' \<notin> set title \<and> (\<forall>a\<in>set atoms. well_formed_atom a)
     \<longrightarrow> from_xyz to_float (ds @ [newline] @ title @ [newline] @ concat (map xyz_line atoms))
          = Inr \<lparr>elements = map (\<lambda>(symb, f1, f2, f3).
                     \<lparr>name = [last symb], x = to_float f1, y = to_float f2, z = to_float f3\<rparr>) atoms,
                 charge = None\<rparr>)
   \<and> (\<forall>g. from_xyz to_float xyz = Inr g \<longrightarrow> charge g = None)"
proof (intro conjI impI allI)
  assume a: "ds \<noteq> [] \<and> (\<forall>c\<in>set ds. is_digit c) \<and> int_of_digits ds = length atoms
      \<and> CHR '' '' \<notin> set title \<and> (\<forall>a\<in>set atoms. well_formed_atom a)"
  let ?doc = "ds @ [newline] @ title @ [newline] @ concat (map xyz_line atoms)"
  have n: "re_match_num_atoms ?doc = Some ds"
    using a by (intro re_match_num_atoms_document) auto
  have f: "re_findall_XYZ_PATTERN ?doc = map parsed_atom atoms"
    using a by (intro findall_document) auto
  have e: "map (Element_from_tuple to_float) (map parsed_atom atoms)
       = map (\<lambda>(symb, f1, f2, f3).
                     \<lparr>name = [last symb], x = to_float f1, y = to_float f2, z = to_float f3\<rparr>) atoms"
    by (auto simp: Element_from_tuple_def parsed_atom_def)
  show "from_xyz to_float ?doc
          = Inr \<lparr>elements = map (\<lambda>(symb, f1, f2, f3).
                     \<lparr>name = [last symb], x = to_float f1, y = to_float f2, z = to_float f3\<rparr>) atoms,
                 charge = None\<rparr>"
    using a e n f by (simp add: from_xyz_def Let_def Geometry_init_def)
next
  fix g assume "from_xyz to_float xyz = Inr g"
  then show "charge g = None"
    by (auto simp: from_xyz_def Let_def Geometry_init_def split: if_splits)
qed

lemmas matcher_defs =
  re_match_num_atoms_def XYZ_PATTERN_def FLOAT_PATTERN_def one_of_def blank_def optional_def
  star_def plus_def is_space_def is_digit_def is_word_def newline_def
  int_of_digits_def digit_value_def

text \<open>
  Claim C5 at a text that declares two atoms and has one coordinate line, and at one that
  declares three and has two.
\<close>
theorem from_xyz_count_mismatch_witness:
  "from_xyz (\<lambda>t. t) ''2\<newline>title\<newline>H 0.0 0.0 0.0\<newline>'' = Inl AssertionError
   \<and> from_xyz (\<lambda>t. t) ''3\<newline>water\<newline>O 0.0 0.0 0.1\<newline>H 0.0 0.7 -.4\<newline>'' = Inl AssertionError"
  using from_xyz_count_mismatch [where xyz = "''2\<newline>title\<newline>H 0.0 0.0 0.0\<newline>''" and n = "''2''"
      and to_float = "\<lambda>t. t" and ds = "''3''" and title = "''water''"
      and atoms = "[(''O'', ''0.0'', ''0.0'', ''0.1''), (''H'', ''0.0'', ''0.7'', ''-.4'')]"]
  by (simp add: well_formed_atom_def float_text_def xyz_line_def matcher_defs)

text \<open>
  Claim C5 as stated fails, since the matches are not counted by line. A text that
  declares two atoms and has one line after the title, with two atoms on it, is accepted
  with two elements; and a text that declares one atom and has no line after the title
  is accepted when its title is an element symbol and three floats.
\<close>
theorem count_is_of_matches_not_lines:
  "re_match_num_atoms ''2\<newline>title\<newline>H 0.0 0.0 0.0 H 0.0 0.0 0.74\<newline>'' = Some ''2''
   \<and> drop 2 (split_lines ''2\<newline>title\<newline>H 0.0 0.0 0.0 H 0.0 0.0 0.74\<newline>'')
       = [''H 0.0 0.0 0.0 H 0.0 0.0 0.74'', []]
   \<and> coordinate_lines ''2\<newline>title\<newline>H 0.0 0.0 0.0 H 0.0 0.0 0.74\<newline>'' = []
   \<and> from_xyz (\<lambda>t. t) ''2\<newline>title\<newline>H 0.0 0.0 0.0 H 0.0 0.0 0.74\<newline>''
       = Inr \<lparr>elements = [\<lparr>name = ''H'', x = ''0.0'', y = ''0.0'', z = ''0.0''\<rparr>,
                          \<lparr>name = ''H'', x = ''0.0'', y = ''0.0'', z = ''0.74''\<rparr>],
              charge = None\<rparr>
   \<and> re_match_num_atoms ''1\<newline>H 0.0 0.0 0.0\<newline>'' = Some ''1''
   \<and> coordinate_lines ''1\<newline>H 0.0 0.0 0.0\<newline>'' = []
   \<and> from_xyz (\<lambda>t. t) ''1\<newline>H 0.0 0.0 0.0\<newline>''
       = Inr \<lparr>elements = [\<lparr>name = ''H'', x = ''0.0'', y = ''0.0'', z = ''0.0''\<rparr>],
              charge = None\<rparr>"
  by (simp add: from_xyz_def Let_def Geometry_init_def Element_from_tuple_def
        coordinate_lines_def parses_as_coordinate_line_def matcher_defs)

text \<open>Claim C6 at a coordinate line without a newline.\<close>
theorem from_xyz_without_newline_witness:
  "from_xyz (\<lambda>t. t) ''H 0.0 0.0 0.0'' = Inr \<lparr>elements = [], charge = None\<rparr>"
  using from_xyz_without_newline [of "''H 0.0 0.0 0.0''" "\<lambda>t. t"]
  by (simp add: newline_def)

text \<open>Claim C10 at the symbols \<^verbatim>\<open>He\<close> and \<^verbatim>\<open>Cl\<close>.\<close>
theorem from_xyz_one_character_name_witness:
  "from_xyz (\<lambda>t. t) ''2\<newline>unnamed\<newline>He 0.0 0.0 0.0\<newline>Cl 0.0 -.5 +0.74\<newline>''
     = Inr \<lparr>elements = [\<lparr>name = ''e'', x = ''0.0'', y = ''0.0'', z = ''0.0''\<rparr>,
                        \<lparr>name = ''l'', x = ''0.0'', y = ''-.5'', z = ''+0.74''\<rparr>],
            charge = None\<rparr>"
  using from_xyz_one_character_name [where ds = "''2''" and title = "''unnamed''"
      and atoms = "[(''He'', ''0.0'', ''0.0'', ''0.0''), (''Cl'', ''0.0'', ''-.5'', ''+0.74'')]"
      and to_float = "\<lambda>t. t"]
  by (simp add: well_formed_atom_def float_text_def xyz_line_def matcher_defs)

section \<open>Properties of create\_input\_deck\<close>

lemma format_CASSCF:
  "format OPENMOLCAS_TEMPLATE_CASSCF
     [''charge'' \<mapsto> ch, ''num_active_el'' \<mapsto> nactel,
      ''num_active_orbitals'' \<mapsto> ras2, ''nroot'' \<mapsto> nroot]
   = Inr (CASSCF_section ch nactel ras2 nroot)"
  by (simp add: OPENMOLCAS_TEMPLATE_CASSCF_def CASSCF_section_def Let_def)

lemma format_FCIDUMP:
  "format OPEN_MOLCAS_TEMPLATE_FCIDUMP [''spin'' \<mapsto> sp, ''charge'' \<mapsto> ch]
   = Inr (FCIDUMP_section sp ch)"
  by (simp add: OPEN_MOLCAS_TEMPLATE_FCIDUMP_def FCIDUMP_section_def Let_def)

lemma format_TEMPLATE:
  "format OPENMOLCAS_TEMPLATE
     [''num_atoms'' \<mapsto> natoms, ''mol_name'' \<mapsto> mname, ''geometry'' \<mapsto> geom,
      ''basis'' \<mapsto> bas, ''symmetry'' \<mapsto> sym_group, ''integral_keyword'' \<mapsto> ikey,
      ''charge'' \<mapsto> ch, ''spin'' \<mapsto> sp, ''rasscf_section'' \<mapsto> sec]
   = Inr (deck_header natoms mname geom bas sym_group ikey ch sp @ sec @ [newline])"
  by (simp add: OPENMOLCAS_TEMPLATE_def deck_header_def Let_def newline_def)

lemma deck_text:
  "create_input_deck coords_to_xyz active_el mol mol_name geometry charge_arg spin
       basis symmetry integral_keyword meth get_broombridge num_active_el
       num_active_orbitals ci_root
   = (let ch = str_int (case charge_arg of Some c \<Rightarrow> c | None \<Rightarrow> GetFormalCharge mol) in
      (Inr (deck_header
           (str_int (case geometry of
                       Some (GeomObj g) \<Rightarrow> int (length (elements g))
                     | _ \<Rightarrow> int (num_atoms_from_mol mol)))
           mol_name
           (fst (formatted_geometry_str coords_to_xyz mol geometry GEOMETRY_LINE_SEP))
           basis symmetry integral_keyword ch (str spin)
         @ (if upper meth = ''CASSCF'' \<and> \<not> get_broombridge
            then CASSCF_section ch (str (active_el mol num_active_el))
                   (str_int num_active_orbitals) (str_int ci_root)
            else if get_broombridge then FCIDUMP_section (str spin) ch
            else [])
         @ [newline]),
       snd (formatted_geometry_str coords_to_xyz mol geometry GEOMETRY_LINE_SEP)))"
  by (simp add: create_input_deck_def Let_def format_CASSCF format_FCIDUMP format_TEMPLATE
      split: prod.splits)

lemma sections_differ:
  "CASSCF_section a b c d \<noteq> FCIDUMP_section e f"
  "CASSCF_section a b c d \<noteq> []" "FCIDUMP_section e f \<noteq> []"
  by (simp_all add: CASSCF_section_def FCIDUMP_section_def)

text \<open>
  Claim C8. The deck is the header followed by exactly one of three sections and a final
  newline: the \<^verbatim>\<open>CASSCF\<close> section when the method is \<^verbatim>\<open>CASSCF\<close> in any letter case and
  \<^verbatim>\<open>get_broombridge\<close> is not set; the \<^verbatim>\<open>FCIDUMP\<close> section when \<^verbatim>\<open>get_broombridge\<close> is
  set, whatever the method; and nothing otherwise. The two sections differ from each
  other and neither is empty, so the three outcomes exclude one another.
\<close>
theorem create_input_deck_sections:
  "(let ch = str_int (case charge_arg of Some c \<Rightarrow> c | None \<Rightarrow> GetFormalCharge mol);
        header = deck_header
           (str_int (case geometry of
                       Some (GeomObj g) \<Rightarrow> int (length (elements g))
                     | _ \<Rightarrow> int (num_atoms_from_mol mol)))
           mol_name
           (fst (formatted_geometry_str coords_to_xyz mol geometry GEOMETRY_LINE_SEP))
           basis symmetry integral_keyword ch (str spin);
        casscf = CASSCF_section ch (str (active_el mol num_active_el))
                   (str_int num_active_orbitals) (str_int ci_root);
        fcidump = FCIDUMP_section (str spin) ch;
        deck = fst (create_input_deck coords_to_xyz active_el mol mol_name geometry charge_arg
                 spin basis symmetry integral_keyword meth get_broombridge num_active_el
                 num_active_orbitals ci_root)
    in (upper meth = ''CASSCF'' \<and> \<not> get_broombridge
          \<longrightarrow> deck = Inr (header @ casscf @ [newline]))
     \<and> (get_broombridge \<longrightarrow> deck = Inr (header @ fcidump @ [newline]))
     \<and> (upper meth \<noteq> ''CASSCF'' \<and> \<not> get_broombridge \<longrightarrow> deck = Inr (header @ [newline]))
     \<and> casscf \<noteq> fcidump \<and> casscf \<noteq> [] \<and> fcidump \<noteq> [])"
  by (simp add: deck_text Let_def sections_differ)

text \<open>
  Claim C9, as the code has it. When a geometry is given, it is what the deck has as its
  geometry (formatted when it is a \<^verbatim>\<open>Geometry\<close>, as it is when it is a string), and one
  warning is issued. The number of atoms is the length of the given \<^verbatim>\<open>Geometry\<close>, and
  that of the molecule when the geometry is given as a string. The charge is the argument
  \<^verbatim>\<open>charge\<close> when it is given and the formal charge of the molecule otherwise: the
  charge of the given \<^verbatim>\<open>Geometry\<close> is not read.
\<close>
theorem create_input_deck_explicit_geometry:
  "geometry = Some given \<longrightarrow>
   create_input_deck coords_to_xyz active_el mol mol_name geometry charge_arg spin
       basis symmetry integral_keyword meth get_broombridge num_active_el
       num_active_orbitals ci_root
   = (let ch = str_int (case charge_arg of Some c \<Rightarrow> c | None \<Rightarrow> GetFormalCharge mol) in
      (Inr (deck_header
           (str_int (case given of
                       GeomObj g \<Rightarrow> int (length (elements g))
                     | GeomStr s \<Rightarrow> int (num_atoms_from_mol mol)))
           mol_name
           (case given of
              GeomObj g \<Rightarrow> format_geometry coords_to_xyz g GEOMETRY_LINE_SEP
            | GeomStr s \<Rightarrow> s)
           basis symmetry integral_keyword ch (str spin)
         @ (if upper meth = ''CASSCF'' \<and> \<not> get_broombridge
            then CASSCF_section ch (str (active_el mol num_active_el))
                   (str_int num_active_orbitals) (str_int ci_root)
            else if get_broombridge then FCIDUMP_section (str spin) ch
            else [])
         @ [newline]),
       [ignoring_mol]))"
  by (cases given) (simp_all add: deck_text Let_def formatted_geometry_str_def)

lemmas text_defs =
  deck_header_def CASSCF_section_def FCIDUMP_section_def GEOMETRY_LINE_SEP_def
  formatted_geometry_str_def format_geometry_from_mol_def format_geometry_def from_mol_def
  Geometry_init_def Element_to_xyz_def print_element_def electrons_or_given_def
  num_electrons_def hydrogen_def lithium_cation_def upper_def to_upper_def str_int_def
  str_nat.simps digit_char_def newline_def ignoring_mol_def num_atoms_from_mol_def

text \<open>
  Claim C8 at the method \<^verbatim>\<open>casscf\<close> without the flag, at \<^verbatim>\<open>CASSCF\<close> with the flag, and
  at \<^verbatim>\<open>HF\<close> without it.
\<close>
theorem create_input_deck_sections_witness:
  "fst (create_input_deck print_element electrons_or_given hydrogen ''h2'' None None (PyInt 1)
          ''ANO-RCC-MB'' ''C1'' [] ''casscf'' False None 2 1)
     = Inr (''\<newline>&GATEWAY\<newline>Coord\<newline>  2\<newline>  h2\<newline>  H 0.0 0.0 0.0\<newline>  H 0.0 0.0 0.74\<newline>'' @
            ''Basis=ANO-RCC-MB\<newline>Group=C1\<newline>\<newline>&SEWARD\<newline>\<newline>\<newline>&SCF\<newline>Charge=0\<newline>Spin=1\<newline>'' @
            ''\<newline>&RASSCF\<newline>  Charge= 0\<newline>  Nactel  =  2\<newline>  Ras2  =  2\<newline>  Ciroot  =  1 1 1\<newline>'' @
            ''\<newline>'')
   \<and> fst (create_input_deck print_element electrons_or_given hydrogen ''h2'' None None (PyInt 1)
          ''ANO-RCC-MB'' ''C1'' [] ''CASSCF'' True None 2 1)
     = Inr (''\<newline>&GATEWAY\<newline>Coord\<newline>  2\<newline>  h2\<newline>  H 0.0 0.0 0.0\<newline>  H 0.0 0.0 0.74\<newline>'' @
            ''Basis=ANO-RCC-MB\<newline>Group=C1\<newline>\<newline>&SEWARD\<newline>\<newline>\<newline>&SCF\<newline>Charge=0\<newline>Spin=1\<newline>'' @
            ''\<newline>&RASSCF\<newline>  DMRG\<newline>  FCIDUMP\<newline>  TYPEINDEX\<newline>  Spin=1\<newline>  Charge=0\<newline>'' @
            ''\<newline>  RGINPUT\<newline>  nsweeps = 5\<newline>  max_bond_dimension = 500\<newline>  ENDRG\<newline>'' @
            ''\<newline>'')
   \<and> fst (create_input_deck print_element electrons_or_given hydrogen ''h2'' None None (PyInt 1)
          ''ANO-RCC-MB'' ''C1'' [] ''HF'' False None 2 1)
     = Inr (''\<newline>&GATEWAY\<newline>Coord\<newline>  2\<newline>  h2\<newline>  H 0.0 0.0 0.0\<newline>  H 0.0 0.0 0.74\<newline>'' @
            ''Basis=ANO-RCC-MB\<newline>Group=C1\<newline>\<newline>&SEWARD\<newline>\<newline>\<newline>&SCF\<newline>Charge=0\<newline>Spin=1\<newline>'' @
            ''\<newline>'')"
  using
    create_input_deck_sections [where coords_to_xyz = print_element
      and active_el = electrons_or_given and mol = hydrogen and mol_name = "''h2''"
      and geometry = None and charge_arg = None and spin = "PyInt 1"
      and basis = "''ANO-RCC-MB''" and symmetry = "''C1''" and integral_keyword = "[]"
      and meth = "''casscf''" and get_broombridge = False and num_active_el = None
      and num_active_orbitals = 2 and ci_root = 1]
    create_input_deck_sections [where coords_to_xyz = print_element
      and active_el = electrons_or_given and mol = hydrogen and mol_name = "''h2''"
      and geometry = None and charge_arg = None and spin = "PyInt 1"
      and basis = "''ANO-RCC-MB''" and symmetry = "''C1''" and integral_keyword = "[]"
      and meth = "''CASSCF''" and get_broombridge = True and num_active_el = None
      and num_active_orbitals = 2 and ci_root = 1]
    create_input_deck_sections [where coords_to_xyz = print_element
      and active_el = electrons_or_given and mol = hydrogen and mol_name = "''h2''"
      and geometry = None and charge_arg = None and spin = "PyInt 1"
      and basis = "''ANO-RCC-MB''" and symmetry = "''C1''" and integral_keyword = "[]"
      and meth = "''HF''" and get_broombridge = False and num_active_el = None
      and num_active_orbitals = 2 and ci_root = 1]
  by (simp add: text_defs Let_def)

text \<open>Claim C9 at a geometry given as a string and a charge given as \<open>-1\<close>.\<close>
theorem create_input_deck_explicit_geometry_witness:
  "create_input_deck print_element electrons_or_given hydrogen ''h2''
       (Some (GeomStr ''He 0.0 0.0 0.0'')) (Some (- 1)) (PyStr ''2'')
       ''ANO-RCC-MB'' ''C1'' ''Cholesky'' ''HF'' False None 0 1
     = (Inr (''\<newline>&GATEWAY\<newline>Coord\<newline>  2\<newline>  h2\<newline>  He 0.0 0.0 0.0\<newline>'' @
            ''Basis=ANO-RCC-MB\<newline>Group=C1\<newline>\<newline>&SEWARD\<newline>Cholesky\<newline>\<newline>&SCF\<newline>Charge=-1\<newline>Spin=2\<newline>'' @
            ''\<newline>''),
        [''Ignoring mol and using specified geometry string instead.''])"
  using create_input_deck_explicit_geometry [where coords_to_xyz = print_element
      and active_el = electrons_or_given and mol = hydrogen and mol_name = "''h2''"
      and geometry = "Some (GeomStr ''He 0.0 0.0 0.0'')" and given = "GeomStr ''He 0.0 0.0 0.0''"
      and charge_arg = "Some (- 1)" and spin = "PyStr ''2''"
      and basis = "''ANO-RCC-MB''" and symmetry = "''C1''" and integral_keyword = "''Cholesky''"
      and meth = "''HF''" and get_broombridge = False and num_active_el = None
      and num_active_orbitals = 0 and ci_root = 1]
  by (simp add: text_defs Let_def)

text \<open>
  Claim C9 as stated fails: with the geometry of a lithium cation, whose charge is 1, and
  the molecule H2, whose formal charge is 0, the deck has \<^verbatim>\<open>Charge=0\<close>.
\<close>
theorem charge_not_from_explicit_geometry:
  "create_input_deck print_element electrons_or_given hydrogen ''h2''
       (Some (GeomObj lithium_cation)) None (PyInt 1)
       ''ANO-RCC-MB'' ''C1'' [] ''HF'' False None 0 1
     = (Inr (''\<newline>&GATEWAY\<newline>Coord\<newline>  1\<newline>  h2\<newline>  Li 0.0 0.0 0.0\<newline>'' @
            ''Basis=ANO-RCC-MB\<newline>Group=C1\<newline>\<newline>&SEWARD\<newline>\<newline>\<newline>&SCF\<newline>Charge=0\<newline>Spin=1\<newline>'' @
            ''\<newline>''),
        [''Ignoring mol and using specified geometry string instead.''])
   \<and> charge_of_source_used hydrogen (Some (GeomObj lithium_cation)) = Some 1"
  by (simp add: deck_text charge_of_source_used_def text_defs Let_def)

section \<open>Properties of the XYZ round trip\<close>












end
